theory Spec2Isabelle
  imports Main
begin

section \<open>Go library functions used by the LSP transport\<close>

text \<open>
  Go strings and byte slices are sequences of bytes; \<open>char\<close> is a byte.
\<close>

type_synonym bytes = string

datatype ('e, 'a) result = Ok 'a | Err 'e | Panic string

subsection \<open>Package strings\<close>

text \<open>
  \<open>strings.TrimSpace\<close> on ASCII input removes the bytes of Go's \<open>asciiSpace\<close> table
  (tab, newline, vertical tab, form feed, carriage return, space) from both ends. A byte
  above 0x7f makes Go fall back on Unicode-aware trimming; the model keeps such bytes, so it
  agrees with Go on header lines that are ASCII, which is what the LSP base protocol sends.
\<close>

definition asciiSpace :: "char \<Rightarrow> bool" where
  "asciiSpace c = (c \<in> set [CHR 0x09, CHR 0x0A, CHR 0x0B, CHR 0x0C, CHR 0x0D, CHR 0x20])"

definition TrimSpace :: "string \<Rightarrow> string" where
  "TrimSpace s = rev (dropWhile asciiSpace (rev (dropWhile asciiSpace s)))"

definition HasPrefix :: "string \<Rightarrow> string \<Rightarrow> bool" where
  "HasPrefix s p = (take (length p) s = p)"

fun Contains :: "string \<Rightarrow> string \<Rightarrow> bool" where
  "Contains [] sub = (sub = [])"
| "Contains (c # s) sub = (HasPrefix (c # s) sub \<or> Contains s sub)"

subsection \<open>Package io and bufio\<close>

datatype io_error = EOF | ErrUnexpectedEOF

fun io_error_text :: "io_error \<Rightarrow> string" where
  "io_error_text EOF = ''EOF''"
| "io_error_text ErrUnexpectedEOF = ''unexpected EOF''"

text \<open>
  The inbound stream is the list of bytes the peer still sends before its end of the pipe
  closes: reading past the last byte yields \<open>io.EOF\<close>. \<open>bufio.Reader.ReadString\<close>
  returns the bytes up to and including the first delimiter, or everything that is left
  together with \<open>io.EOF\<close> when the delimiter never comes.
\<close>

definition ReadString :: "char \<Rightarrow> bytes \<Rightarrow> bytes \<times> io_error option \<times> bytes" where
  "ReadString delim r =
     (if delim \<in> set r
      then (takeWhile (\<lambda>c. c \<noteq> delim) r @ [delim], None,
            drop (Suc (length (takeWhile (\<lambda>c. c \<noteq> delim) r))) r)
      else (r, Some EOF, []))"

lemma ReadString_shorter:
  "ReadString delim r = (line, None, r') \<Longrightarrow> length r' < length r"
  by (cases r) (auto simp: ReadString_def split: if_splits)

text \<open>
  \<open>io.ReadFull\<close> into a buffer of \<open>n\<close> bytes: the error is \<open>io.EOF\<close> only if no byte was
  read, and \<open>io.ErrUnexpectedEOF\<close> if the stream ends after some but not all bytes.
\<close>

definition ReadFull :: "nat \<Rightarrow> bytes \<Rightarrow> (io_error + bytes) \<times> bytes" where
  "ReadFull n r =
     (if n \<le> length r then (Inr (take n r), drop n r)
      else if r = [] then (Inl EOF, [])
      else (Inl ErrUnexpectedEOF, []))"

subsection \<open>Package fmt: printing and scanning a decimal integer\<close>

definition digit_char :: "nat \<Rightarrow> char" where
  "digit_char d = ''0123456789'' ! d"

fun decimal :: "nat \<Rightarrow> string" where
  "decimal n = (if n < 10 then [digit_char n] else decimal (n div 10) @ [digit_char (n mod 10)])"

declare decimal.simps [simp del]

text \<open>The verb \<open>%d\<close> of \<open>fmt.Fprintf\<close> and \<open>fmt.Sprintf\<close>.\<close>

definition format_d :: "int \<Rightarrow> string" where
  "format_d i = (if i < 0 then CHR ''-'' # decimal (nat (- i)) else decimal (nat i))"

definition isDigit :: "char \<Rightarrow> bool" where
  "isDigit c = (c \<in> set ''0123456789'')"

definition digit_val :: "char \<Rightarrow> nat" where
  "digit_val c = of_char c - 48"

definition digits_val :: "string \<Rightarrow> nat" where
  "digits_val ds = foldl (\<lambda>a c. 10 * a + digit_val c) 0 ds"

datatype scan_error =
    ScanIO io_error
  | ScanSyntax string
  | ScanRange string

fun scan_error_text :: "scan_error \<Rightarrow> string" where
  "scan_error_text (ScanIO e) = io_error_text e"
| "scan_error_text (ScanSyntax s) = s"
| "scan_error_text (ScanRange tok) =
     ''strconv.ParseInt: parsing '' @ [CHR 0x22] @ tok @ [CHR 0x22] @ '': value out of range''"

text \<open>
  \<open>strconv.ParseInt(tok, 10, 64)\<close> on a token made of an optional sign and decimal digits,
  which is what the scanner hands over.
\<close>

definition ParseInt :: "string \<Rightarrow> scan_error + int" where
  "ParseInt tok =
     (let v = (case tok of
                 c # ds \<Rightarrow>
                   if c = CHR ''-'' then - int (digits_val ds)
                   else if c = CHR ''+'' then int (digits_val ds)
                   else int (digits_val tok)
               | [] \<Rightarrow> 0)
      in if - (2 ^ 63) \<le> v \<and> v < 2 ^ 63 then Inr v else Inl (ScanRange tok))"

text \<open>
  The verb \<open>%d\<close> of \<open>fmt.Sscanf\<close> into an \<open>int\<close> (64 bits): skip spaces, fail on a
  newline, fail when the input is used up, accept one sign, then at least one decimal digit
  and all the digits that follow; whatever comes after the digits is left unread. The
  scanner reports input that is used up as an end-of-file error of package \<open>io\<close>.
\<close>

definition scanInt :: "string \<Rightarrow> scan_error + int" where
  "scanInt s =
     (case dropWhile (\<lambda>c. asciiSpace c \<and> c \<noteq> CHR 0x0A) s of
        [] \<Rightarrow> Inl (ScanIO ErrUnexpectedEOF)
      | c # cs \<Rightarrow>
          if c = CHR 0x0A then Inl (ScanSyntax ''unexpected newline'')
          else
            let sgn = (if c = CHR ''-'' \<or> c = CHR ''+'' then [c] else []);
                rest = (if sgn = [] then c # cs else cs)
            in (case rest of
                  [] \<Rightarrow> Inl (ScanIO ErrUnexpectedEOF)
                | d # _ \<Rightarrow>
                    if isDigit d then ParseInt (sgn @ takeWhile isDigit rest)
                    else Inl (ScanSyntax ''expected integer'')))"

text \<open>
  \<open>fmt.Sscanf(line, "Content-Length: %d", &contentLength)\<close>: the literal text must match,
  the space of the format matches one space of the input and the spaces after it, and the
  verb scans the integer.
\<close>

definition Sscanf_Content_Length :: "string \<Rightarrow> scan_error + int" where
  "Sscanf_Content_Length line =
     (if \<not> HasPrefix line ''Content-Length:''
      then Inl (ScanSyntax ''input does not match format'')
      else (case drop 15 line of
              [] \<Rightarrow> Inl (ScanIO ErrUnexpectedEOF)
            | c # cs \<Rightarrow>
                if \<not> asciiSpace c
                then Inl (ScanSyntax ''expected space in input to match format'')
                else if c = CHR 0x0A
                then Inl (ScanSyntax ''newline in input does not match format'')
                else scanInt cs))"

section \<open>The message envelope\<close>

text \<open>
  Modelled from the spec: the types \<open>Message\<close>, \<open>MessageID\<close> and \<open>ResponseError\<close>
  are declared in a file of the package that is not among the sources. The fields are
  those of the envelope of the spec, under the names with which the transport reads and
  writes them: the version tag, the optional identifier, the method, the parameters, the
  result, and the optional error with its code and message. A request identifier is an
  integer or a string; the \<open>Value\<close> of a \<open>MessageID\<close> may be nil, as may the \<open>ID\<close>
  pointer of a message, and the transport tests both.
\<close>

datatype id_value = IntValue int | StringValue string

record MessageID =
  Value :: "id_value option"

record ResponseError =
  Code :: int
  Message :: string

record Message =
  JSONRPC :: string
  ID :: "MessageID option"
  Method :: string
  Params :: bytes
  Result :: bytes
  Error :: "ResponseError option"

definition zero_Message :: Message where
  "zero_Message = \<lparr>JSONRPC = [], ID = None, Method = [], Params = [], Result = [], Error = None\<rparr>"

subsection \<open>Loggers\<close>

datatype logger = lspLogger | wireLogger | coreLogger

datatype log_level = LevelDebug | LevelInfo | LevelWarn | LevelError

text \<open>A log entry records the logger, the level and the format string of the call.\<close>

type_synonym log_entry = "logger \<times> log_level \<times> string"

subsection \<open>What the transport takes from outside\<close>

text \<open>
  \<open>encoding/json\<close> on the envelope and on handler results, the \<open>String\<close> method of
  \<open>MessageID\<close> (the key of the table of pending calls), and the \<open>Write\<close> method of the
  outbound stream are not code of the transport; the model takes them as parameters. A
  failure carries the text of the Go error; a writer has a state of some type \<open>'w\<close>, and
  a write returns the error, if any, and the new state. The two error codes that \<open>Call\<close>
  names are constants of package \<open>protocol\<close>, which is not among the sources either.
\<close>

record ('w, 'r) lib =
  json_Marshal :: "Message \<Rightarrow> string + bytes"
  json_Unmarshal :: "bytes \<Rightarrow> string + Message"
  json_Marshal_any :: "'r \<Rightarrow> string + bytes"
  idString :: "MessageID \<Rightarrow> string"
  ContentModified :: int
  ServerCancelled :: int
  Write :: "'w \<Rightarrow> bytes \<Rightarrow> string option \<times> 'w"

section \<open>The wire codec\<close>

subsection \<open>WriteMessage\<close>

definition frame_header :: "bytes \<Rightarrow> bytes" where
  "frame_header data =
     ''Content-Length: '' @ format_d (int (length data)) @ [CHR 0x0D, CHR 0x0A, CHR 0x0D, CHR 0x0A]"

definition WriteMessage ::
  "('w, 'r) lib \<Rightarrow> 'w \<Rightarrow> Message \<Rightarrow> log_entry list \<times> string option \<times> 'w" where
  "WriteMessage L w msg =
     (case json_Marshal L msg of
        Inl e \<Rightarrow> ([], Some (''failed to marshal message: '' @ e), w)
      | Inr data \<Rightarrow>
          let logs = [(lspLogger, LevelDebug, ''Sending message: method=%s id=%v''),
                      (wireLogger, LevelDebug, ''-> Sending: %s'')]
          in (case Write L w (frame_header data) of
                (Some e, w') \<Rightarrow> (logs, Some (''failed to write header: '' @ e), w')
              | (None, w') \<Rightarrow>
                  (case Write L w' data of
                     (Some e, w'') \<Rightarrow>
                       (logs, Some (''failed to write message: '' @ e), w'')
                   | (None, w'') \<Rightarrow> (logs, None, w''))))"

subsection \<open>ReadMessage\<close>

datatype read_error =
    HeaderReadFailed io_error
  | InvalidContentLength scan_error
  | ContentReadFailed io_error
  | UnmarshalFailed string

fun read_error_text :: "read_error \<Rightarrow> string" where
  "read_error_text (HeaderReadFailed e) = ''failed to read header: '' @ io_error_text e"
| "read_error_text (InvalidContentLength e) = ''invalid Content-Length: '' @ scan_error_text e"
| "read_error_text (ContentReadFailed e) = ''failed to read content: '' @ io_error_text e"
| "read_error_text (UnmarshalFailed e) = ''failed to unmarshal message: '' @ e"

definition header_log :: log_entry where
  "header_log = (wireLogger, LevelDebug, ''<- Header: %s'')"

fun with_log :: "log_entry \<Rightarrow> log_entry list \<times> 'a \<Rightarrow> log_entry list \<times> 'a" where
  "with_log l (ls, x) = (l # ls, x)"

text \<open>The header loop of \<open>ReadMessage\<close>, from the current value of \<open>contentLength\<close>.\<close>

function read_headers :: "int \<Rightarrow> bytes \<Rightarrow> log_entry list \<times> (read_error, int \<times> bytes) result" where
  "read_headers contentLength r =
     (case ReadString (CHR 0x0A) r of
        (line, Some e, r') \<Rightarrow> ([], Err (HeaderReadFailed e))
      | (line, None, r') \<Rightarrow>
          if TrimSpace line = [] then ([], Ok (contentLength, r'))
          else if HasPrefix (TrimSpace line) ''Content-Length: ''
          then (case Sscanf_Content_Length (TrimSpace line) of
                  Inl e \<Rightarrow> ([header_log], Err (InvalidContentLength e))
                | Inr n \<Rightarrow> with_log header_log (read_headers n r'))
          else with_log header_log (read_headers contentLength r'))"
  by pat_completeness auto
termination
  by (relation "measure (\<lambda>(contentLength, r). length r)")
     (auto dest: ReadString_shorter [OF sym])

declare read_headers.simps [simp del]

text \<open>The test \<open>msg.ID != nil && msg.ID.Value != nil\<close>.\<close>

definition has_id :: "Message \<Rightarrow> bool" where
  "has_id msg = (case ID msg of None \<Rightarrow> False | Some i \<Rightarrow> Value i \<noteq> None)"

text \<open>The log line of \<open>ReadMessage\<close> about the kind of message it decoded.\<close>

definition received_kind_log :: "Message \<Rightarrow> log_entry list" where
  "received_kind_log msg =
     (if Method msg \<noteq> [] \<and> has_id msg
      then [(lspLogger, LevelDebug, ''Received request from server: method=%s id=%v'')]
      else if Method msg \<noteq> []
      then [(lspLogger, LevelDebug, ''Received notification: method=%s'')]
      else if has_id msg
      then [(lspLogger, LevelDebug, ''Received response for ID: %v'')]
      else [])"

text \<open>
  \<open>make([]byte, contentLength)\<close> panics on a negative length. The model takes the
  allocation of a non-negative length to succeed, as it does when the memory is there.
\<close>

definition ReadMessage ::
  "('w, 'r) lib \<Rightarrow> bytes \<Rightarrow> log_entry list \<times> (read_error, Message \<times> bytes) result" where
  "ReadMessage L r =
     (case read_headers 0 r of
        (logs, Err e) \<Rightarrow> (logs, Err e)
      | (logs, Panic p) \<Rightarrow> (logs, Panic p)
      | (logs, Ok (contentLength, r')) \<Rightarrow>
          if contentLength < 0 then (logs, Panic ''runtime error: makeslice: len out of range'')
          else (case ReadFull (nat contentLength) r' of
                  (Inl e, r'') \<Rightarrow> (logs, Err (ContentReadFailed e))
                | (Inr content, r'') \<Rightarrow>
                    (case json_Unmarshal L content of
                       Inl e \<Rightarrow>
                         (logs @ [(wireLogger, LevelDebug, ''<- Received: %s'')],
                          Err (UnmarshalFailed e))
                     | Inr msg \<Rightarrow>
                         (logs @ [(wireLogger, LevelDebug, ''<- Received: %s'')]
                            @ received_kind_log msg,
                          Ok (msg, r'')))))"


section \<open>The client\<close>

subsection \<open>Channels\<close>

text \<open>
  A Go channel of messages with a buffer of capacity one, as \<open>Call\<close> makes them. A send
  on a closed channel and a second close panic; a send on a full buffer blocks.
\<close>

record chan =
  buf :: "Message list"
  closed :: bool

definition make_chan :: chan where
  "make_chan = \<lparr>buf = [], closed = False\<rparr>"

datatype chan_op = Done chan | ChanPanic string | ChanBlocked

definition chan_send :: "chan \<Rightarrow> Message \<Rightarrow> chan_op" where
  "chan_send ch m =
     (if closed ch then ChanPanic ''send on closed channel''
      else if 1 \<le> length (buf ch) then ChanBlocked
      else Done (ch\<lparr>buf := buf ch @ [m]\<rparr>))"

definition chan_close :: "chan \<Rightarrow> chan_op" where
  "chan_close ch =
     (if closed ch then ChanPanic ''close of closed channel''
      else Done (ch\<lparr>closed := True\<rparr>))"

text \<open>
  A receive takes the oldest buffered message; on a closed and empty channel it yields the
  zero value, a nil pointer; on an open and empty channel it is not ready.
\<close>

definition chan_recv :: "chan \<Rightarrow> (Message option \<times> chan) option" where
  "chan_recv ch =
     (case buf ch of
        m # ms \<Rightarrow> Some (Some m, ch\<lparr>buf := ms\<rparr>)
      | [] \<Rightarrow> if closed ch then Some (None, ch) else None)"

subsection \<open>The state of a client\<close>

text \<open>
  The fields of \<open>Client\<close> that the transport uses. Channels live in a store indexed by
  their address, \<open>next_chan\<close> being the next address \<open>make\<close> hands out; the table
  \<open>handlers\<close> maps the string form of a request identifier to the channel of the pending
  call. Handlers are functions of the raw parameters; \<open>spawned\<close> lists the goroutines
  started for notifications, by method and parameters.
\<close>

record ('w, 'r) Client =
  stdin :: 'w
  stdout :: bytes
  nextID :: int
  handlers :: "string \<rightharpoonup> nat"
  chans :: "nat \<Rightarrow> chan"
  next_chan :: nat
  serverRequestHandlers :: "string \<rightharpoonup> (bytes \<Rightarrow> string + 'r)"
  notificationHandlers :: "string \<rightharpoonup> (bytes \<Rightarrow> unit)"
  spawned :: "(string \<times> bytes) list"
  log :: "log_entry list"

definition add_log :: "log_entry list \<Rightarrow> ('w, 'r) Client \<Rightarrow> ('w, 'r) Client" where
  "add_log ls c = c\<lparr>log := log c @ ls\<rparr>"

section \<open>The dispatch loop\<close>

subsection \<open>The three classes of messages\<close>

definition is_peer_request :: "Message \<Rightarrow> bool" where
  "is_peer_request msg = (Method msg \<noteq> [] \<and> has_id msg)"

definition is_peer_notification :: "Message \<Rightarrow> bool" where
  "is_peer_notification msg = (Method msg \<noteq> [] \<and> \<not> has_id msg)"

definition is_response :: "Message \<Rightarrow> bool" where
  "is_response msg = (has_id msg \<and> Method msg = [])"

subsection \<open>One iteration of handleMessages after a successful read\<close>

datatype ('w, 'r) dispatched =
    Continue "('w, 'r) Client"
  | Panicked string "('w, 'r) Client"
  | BlockedOnSend "('w, 'r) Client"

text \<open>The response to a request of the peer, with the log lines written on the way.\<close>

definition server_response ::
  "('w, 'r) lib \<Rightarrow> ('w, 'r) Client \<Rightarrow> Message \<Rightarrow> log_entry list \<times> Message" where
  "server_response L c msg =
     (let response = zero_Message\<lparr>JSONRPC := ''2.0'', ID := ID msg\<rparr>
      in (case serverRequestHandlers c (Method msg) of
            Some handler \<Rightarrow>
              (case handler (Params msg) of
                 Inl e \<Rightarrow>
                   ([(lspLogger, LevelDebug, ''Processing server request: method=%s id=%v''),
                     (lspLogger, LevelError, ''Error handling server request %s: %v'')],
                    response\<lparr>Error := Some \<lparr>Code = - 32603, Message = e\<rparr>\<rparr>)
               | Inr result \<Rightarrow>
                   (case json_Marshal_any L result of
                      Inl e \<Rightarrow>
                        ([(lspLogger, LevelDebug, ''Processing server request: method=%s id=%v''),
                          (lspLogger, LevelError, ''Failed to marshal response for %s: %v'')],
                         response\<lparr>Error :=
                           Some \<lparr>Code = - 32603,
                                 Message = ''failed to marshal response: '' @ e\<rparr>\<rparr>)
                    | Inr rawJSON \<Rightarrow>
                        ([(lspLogger, LevelDebug, ''Processing server request: method=%s id=%v'')],
                         response\<lparr>Result := rawJSON\<rparr>)))
          | None \<Rightarrow>
              ([(lspLogger, LevelWarn, ''Method not found: %s'')],
               response\<lparr>Error :=
                 Some \<lparr>Code = - 32601, Message = ''method not found: '' @ Method msg\<rparr>\<rparr>)))"

definition handle_request ::
  "('w, 'r) lib \<Rightarrow> ('w, 'r) Client \<Rightarrow> Message \<Rightarrow> ('w, 'r) Client" where
  "handle_request L c msg =
     (case server_response L c msg of
        (logs, response) \<Rightarrow>
          (case WriteMessage L (stdin c) response of
             (wlogs, None, w') \<Rightarrow> add_log (logs @ wlogs) (c\<lparr>stdin := w'\<rparr>)
           | (wlogs, Some e, w') \<Rightarrow>
               add_log (logs @ wlogs
                          @ [(lspLogger, LevelError, ''Error sending response to server: %v'')])
                 (c\<lparr>stdin := w'\<rparr>)))"

definition handle_notification :: "('w, 'r) Client \<Rightarrow> Message \<Rightarrow> ('w, 'r) Client" where
  "handle_notification c msg =
     (case notificationHandlers c (Method msg) of
        Some handler \<Rightarrow>
          add_log [(lspLogger, LevelDebug, ''Handling notification: %s'')]
            (c\<lparr>spawned := spawned c @ [(Method msg, Params msg)]\<rparr>)
      | None \<Rightarrow> add_log [(lspLogger, LevelDebug, ''No handler for notification: %s'')] c)"

definition handle_response ::
  "('w, 'r) lib \<Rightarrow> ('w, 'r) Client \<Rightarrow> Message \<Rightarrow> ('w, 'r) dispatched" where
  "handle_response L c msg =
     (case ID msg of
        None \<Rightarrow> Panicked ''runtime error: invalid memory address or nil pointer dereference'' c
      | Some i \<Rightarrow>
          (case handlers c (idString L i) of
             Some ch \<Rightarrow>
               (let c1 = add_log [(lspLogger, LevelDebug, ''Sending response for ID %v to handler'')] c
                in case chan_send (chans c1 ch) msg of
                     ChanPanic p \<Rightarrow> Panicked p c1
                   | ChanBlocked \<Rightarrow> BlockedOnSend c1
                   | Done ch1 \<Rightarrow>
                       (case chan_close ch1 of
                          ChanPanic p \<Rightarrow> Panicked p (c1\<lparr>chans := (chans c1)(ch := ch1)\<rparr>)
                        | ChanBlocked \<Rightarrow> BlockedOnSend (c1\<lparr>chans := (chans c1)(ch := ch1)\<rparr>)
                        | Done ch2 \<Rightarrow> Continue (c1\<lparr>chans := (chans c1)(ch := ch2)\<rparr>)))
           | None \<Rightarrow>
               Continue (add_log [(lspLogger, LevelDebug, ''No handler for response ID: %v'')] c)))"

definition dispatch ::
  "('w, 'r) lib \<Rightarrow> ('w, 'r) Client \<Rightarrow> Message \<Rightarrow> ('w, 'r) dispatched" where
  "dispatch L c msg =
     (if Method msg \<noteq> [] \<and> has_id msg then Continue (handle_request L c msg)
      else if Method msg \<noteq> [] \<and> \<not> has_id msg then Continue (handle_notification c msg)
      else if has_id msg \<and> Method msg = [] then handle_response L c msg
      else Continue c)"

subsection \<open>handleMessages\<close>

text \<open>
  How the loop ends: it returns after a read error, logged as the end of the connection
  when the text of the error contains \<open>EOF\<close> and as an error otherwise; it dies in a panic;
  or it stays blocked in a send.
\<close>

datatype loop_exit =
    ConnectionClosedEOF read_error
  | ReadingFailed read_error
  | LoopPanicked string
  | LoopBlocked

lemma read_headers_shorter:
  "read_headers contentLength r = (logs, Ok (n, r')) \<Longrightarrow> length r' < length r"
proof (induction contentLength r arbitrary: logs rule: read_headers.induct)
  case (1 contentLength r)
  obtain line e r1 where rs: "ReadString (CHR 0x0A) r = (line, e, r1)"
    by (cases "ReadString (CHR 0x0A) r") auto
  show ?case
  proof (cases e)
    case (Some a)
    with 1(3) rs show ?thesis by (subst (asm) read_headers.simps) simp
  next
    case None
    note sh = ReadString_shorter [OF rs [unfolded None]]
    show ?thesis
    proof (cases "TrimSpace line = []")
      case True
      with 1(3) rs None sh show ?thesis by (subst (asm) read_headers.simps) auto
    next
      case False
      note ne = this
      show ?thesis
      proof (cases "HasPrefix (TrimSpace line) ''Content-Length: ''")
        case True
        show ?thesis
        proof (cases "Sscanf_Content_Length (TrimSpace line)")
          case (Inl a)
          with 1(3) rs None ne True show ?thesis
            by (subst (asm) read_headers.simps) simp
        next
          case (Inr m)
          obtain ls where "read_headers m r1 = (ls, Ok (n, r'))"
            using 1(3) rs None ne True Inr
            by (subst (asm) read_headers.simps) (cases "read_headers m r1", auto)
          from 1(1) [OF rs [symmetric, unfolded None] refl refl ne True Inr this] sh
          show ?thesis by simp
        qed
      next
        case False
        obtain ls where "read_headers contentLength r1 = (ls, Ok (n, r'))"
          using 1(3) rs None ne False
          by (subst (asm) read_headers.simps) (cases "read_headers contentLength r1", auto)
        from 1(2) [OF rs [symmetric, unfolded None] refl refl ne False this] sh
        show ?thesis by simp
      qed
    qed
  qed
qed

lemma ReadMessage_shorter:
  assumes "ReadMessage L r = (logs, Ok (msg, r'))"
  shows "length r' < length r"
proof -
  obtain hl hres where h: "read_headers 0 r = (hl, hres)"
    by (cases "read_headers 0 r") auto
  show ?thesis
  proof (cases hres)
    case (Ok p)
    obtain n r1 where p: "p = (n, r1)" by (cases p) auto
    have "length r1 < length r" using read_headers_shorter h Ok p by simp
    moreover have "length r' \<le> length r1"
      using assms h Ok p
      by (auto simp: ReadMessage_def ReadFull_def split: if_splits sum.splits)
    ultimately show ?thesis by simp
  next
    case (Err e)
    with assms h show ?thesis by (simp add: ReadMessage_def)
  next
    case (Panic s)
    with assms h show ?thesis by (simp add: ReadMessage_def)
  qed
qed

lemma dispatch_stdout:
  "dispatch L c msg = Continue c' \<Longrightarrow> stdout c' = stdout c"
  by (auto simp: dispatch_def handle_request_def handle_notification_def handle_response_def
        add_log_def Let_def
      split: if_splits prod.splits option.splits chan_op.splits)

function handleMessages ::
  "('w, 'r) lib \<Rightarrow> ('w, 'r) Client \<Rightarrow> loop_exit \<times> ('w, 'r) Client" where
  "handleMessages L c =
     (case ReadMessage L (stdout c) of
        (rlogs, Err e) \<Rightarrow>
          if Contains (read_error_text e) ''EOF''
          then (ConnectionClosedEOF e,
                add_log (rlogs @ [(lspLogger, LevelInfo, ''LSP connection closed (EOF)'')]) c)
          else (ReadingFailed e,
                add_log (rlogs @ [(lspLogger, LevelError, ''Error reading message: %v'')]) c)
      | (rlogs, Panic p) \<Rightarrow> (LoopPanicked p, add_log rlogs c)
      | (rlogs, Ok (msg, r')) \<Rightarrow>
          (case dispatch L (add_log rlogs (c\<lparr>stdout := r'\<rparr>)) msg of
             Continue c' \<Rightarrow> handleMessages L c'
           | Panicked p c' \<Rightarrow> (LoopPanicked p, c')
           | BlockedOnSend c' \<Rightarrow> (LoopBlocked, c')))"
  by pat_completeness auto
termination
proof (relation "measure (\<lambda>(L, c). length (stdout c))", goal_cases)
  case 1
  show ?case by simp
next
  case (2 L c rlogs res p msg r' c')
  have "length r' < length (stdout c)"
    using ReadMessage_shorter [of L "stdout c" rlogs msg r'] 2 by simp
  moreover have "stdout c' = r'"
    using dispatch_stdout [of L "add_log rlogs (c\<lparr>stdout := r'\<rparr>)" msg c'] 2
    by (simp add: add_log_def)
  ultimately show ?case by simp
qed

declare handleMessages.simps [simp del]


section \<open>Call\<close>

text \<open>
  Modelled from the spec: \<open>NewRequest\<close> is declared outside the sources at hand. It
  builds the request-shaped message: version tag, the identifier, the method, and the
  parameters marshalled to JSON, and fails when the parameters cannot be marshalled.
\<close>

definition NewRequest :: "('w, 'r) lib \<Rightarrow> int \<Rightarrow> string \<Rightarrow> 'r \<Rightarrow> string + Message" where
  "NewRequest L rid method params =
     (case json_Marshal_any L params of
        Inl e \<Rightarrow> Inl e
      | Inr raw \<Rightarrow>
          Inr (zero_Message\<lparr>JSONRPC := ''2.0'', ID := Some \<lparr>Value = Some (IntValue rid)\<rparr>,
                 Method := method, Params := raw\<rparr>))"

text \<open>
  Where the result of a call goes: nowhere (\<open>result == nil\<close>), into a
  \<open>*json.RawMessage\<close>, or into a value of some other type through \<open>json.Unmarshal\<close>.
\<close>

datatype 'r call_dest = NoResult | RawMessageDest | TypedDest "bytes \<Rightarrow> string + 'r"

datatype 'r call_value = NoValue | RawValue bytes | TypedValue 'r

text \<open>
  \<open>Call\<close> blocks in its \<open>select\<close>, and the rest of the program runs meanwhile. The model
  cuts \<open>Call\<close> there: \<open>Call_send\<close> runs up to the \<open>select\<close>, and \<open>Call_select\<close> runs
  from the \<open>select\<close> to the return, in the state the client has by then. A call is either
  still waiting (with the key and the channel it registered), or it has returned an error
  (\<open>None\<close> for nil) and a result, or it has panicked.
\<close>

datatype ('w, 'r) call_state =
    Waiting string nat "('w, 'r) Client"
  | Returned "string option" "'r call_value" "('w, 'r) Client"
  | CallPanicked string "('w, 'r) Client"

text \<open>The deferred function of \<open>Call\<close>.\<close>

definition unregister :: "string \<Rightarrow> ('w, 'r) Client \<Rightarrow> ('w, 'r) Client" where
  "unregister idStr c = c\<lparr>handlers := (handlers c)(idStr := None)\<rparr>"

definition Call_send ::
  "('w, 'r) lib \<Rightarrow> ('w, 'r) Client \<Rightarrow> string \<Rightarrow> 'r \<Rightarrow> ('w, 'r) call_state" where
  "Call_send L c method params =
     (let rid = nextID c + 1;
          c1 = add_log [(lspLogger, LevelDebug, ''Making call: method=%s id=%v'')]
                 (c\<lparr>nextID := rid\<rparr>)
      in case NewRequest L rid method params of
           Inl e \<Rightarrow> Returned (Some (''failed to create request: '' @ e)) NoValue c1
         | Inr msg \<Rightarrow>
             (case ID msg of
                None \<Rightarrow>
                  CallPanicked ''runtime error: invalid memory address or nil pointer dereference'' c1
              | Some i \<Rightarrow>
                  let ch = next_chan c1;
                      idStr = idString L i;
                      c2 = c1\<lparr>chans := (chans c1)(ch := make_chan), next_chan := Suc ch,
                              handlers := (handlers c1)(idStr \<mapsto> ch)\<rparr>
                  in (case WriteMessage L (stdin c2) msg of
                        (wlogs, Some e, w') \<Rightarrow>
                          Returned (Some (''failed to send request: '' @ e)) NoValue
                            (unregister idStr (add_log wlogs (c2\<lparr>stdin := w'\<rparr>)))
                      | (wlogs, None, w') \<Rightarrow>
                          Waiting idStr ch
                            (add_log
                               (wlogs @ [(lspLogger, LevelDebug,
                                          ''Waiting for response to request ID: %v'')])
                               (c2\<lparr>stdin := w'\<rparr>)))))"

text \<open>
  The case the \<open>select\<close> takes: the receive from the channel, or \<open>ctx.Done()\<close> with the
  text of \<open>ctx.Err()\<close>.
\<close>

datatype select_case = RecvReady | CtxDone string

definition Call_select ::
  "('w, 'r) lib \<Rightarrow> ('w, 'r) Client \<Rightarrow> string \<Rightarrow> nat \<Rightarrow> 'r call_dest \<Rightarrow> select_case
     \<Rightarrow> ('w, 'r) call_state" where
  "Call_select L c idStr ch dest sel =
     (case sel of
        CtxDone e \<Rightarrow>
          Returned (Some (''request timed out: '' @ e)) NoValue
            (unregister idStr
               (add_log [(lspLogger, LevelError, ''Request timed out for ID: %v, method: %s'')] c))
      | RecvReady \<Rightarrow>
          (case chan_recv (chans c ch) of
             None \<Rightarrow> Waiting idStr ch c
           | Some (None, ch') \<Rightarrow>
               CallPanicked ''runtime error: invalid memory address or nil pointer dereference''
                 (unregister idStr
                    (add_log [(lspLogger, LevelDebug, ''Received response for request ID: %v'')] c))
           | Some (Some resp, ch') \<Rightarrow>
               let c1 = add_log [(lspLogger, LevelDebug, ''Received response for request ID: %v'')]
                          (c\<lparr>chans := (chans c)(ch := ch')\<rparr>)
               in (case Error resp of
                     Some err \<Rightarrow>
                       Returned
                         (Some (if Code err = ContentModified L then ''content modified''
                                else if Code err = ServerCancelled L then ''server cancelled''
                                else ''request failed: '' @ Message err @ '' (code: ''
                                       @ format_d (Code err) @ '')''))
                         NoValue
                         (unregister idStr
                            (add_log [(lspLogger, LevelError, ''Request failed: %s (code: %d)'')] c1))
                   | None \<Rightarrow>
                       (case dest of
                          NoResult \<Rightarrow> Returned None NoValue (unregister idStr c1)
                        | RawMessageDest \<Rightarrow>
                            Returned None (RawValue (Result resp)) (unregister idStr c1)
                        | TypedDest unmarshal \<Rightarrow>
                            (case unmarshal (Result resp) of
                               Inl e \<Rightarrow>
                                 Returned (Some (''failed to unmarshal result: '' @ e)) NoValue
                                   (unregister idStr
                                      (add_log [(lspLogger, LevelError,
                                                 ''Failed to unmarshal result: %v'')] c1))
                             | Inr v \<Rightarrow> Returned None (TypedValue v) (unregister idStr c1))))))"

text \<open>
  The whole of \<open>Call\<close>: \<open>meanwhile\<close> is what the rest of the program has made of the
  client by the time the \<open>select\<close> fires, and the case it fires with.
\<close>

definition Call ::
  "('w, 'r) lib \<Rightarrow> ('w, 'r) Client \<Rightarrow> string \<Rightarrow> 'r \<Rightarrow> 'r call_dest
     \<Rightarrow> (('w, 'r) Client \<Rightarrow> select_case \<times> ('w, 'r) Client) \<Rightarrow> ('w, 'r) call_state" where
  "Call L c method params dest meanwhile =
     (case Call_send L c method params of
        Waiting idStr ch c3 \<Rightarrow>
          (case meanwhile c3 of (sel, c4) \<Rightarrow> Call_select L c4 idStr ch dest sel)
      | Returned e v c1 \<Rightarrow> Returned e v c1
      | CallPanicked p c1 \<Rightarrow> CallPanicked p c1)"

section \<open>The monitor of the parent process in main\<close>

text \<open>
  The goroutine reads the parent identifier once, then on every tick of a 100 ms ticker
  reads it again, until the channel \<open>done\<close> is closed. An event is a tick, with what
  \<open>os.Getppid\<close> returns then, or the closing of \<open>done\<close>; the list holds the events the
  \<open>select\<close> takes, in order. The goroutine ends by closing \<open>parentDeath\<close>, which starts
  the shutdown, or because \<open>done\<close> was closed; until then it keeps polling.
\<close>

datatype monitor_event = Tick int | DoneClosed

datatype monitor_exit = ParentDeath | MonitorStopped | StillPolling

fun monitor :: "int \<Rightarrow> monitor_event list \<Rightarrow> monitor_exit" where
  "monitor ppid [] = StillPolling"
| "monitor ppid (Tick currentPpid # evs) =
     (if currentPpid \<noteq> ppid \<and> (currentPpid = 1 \<or> ppid = 1) then ParentDeath
      else monitor ppid evs)"
| "monitor ppid (DoneClosed # evs) = MonitorStopped"

section \<open>Examples of what the transport takes from outside\<close>

text \<open>
  \<open>bytes.Buffer\<close> as the writer: a write appends and never fails. And a pipe whose
  reading end is closed: every write fails and nothing is written.
\<close>

definition Buffer_Write :: "bytes \<Rightarrow> bytes \<Rightarrow> string option \<times> bytes" where
  "Buffer_Write w p = (None, w @ p)"

definition Closed_Write :: "bytes \<Rightarrow> bytes \<Rightarrow> string option \<times> bytes" where
  "Closed_Write w p = (Some ''write |1: broken pipe'', w)"

text \<open>
  A few messages with the JSON text that \<open>encoding/json\<close> gives them, for the closed
  examples below; on any other input the example codec fails, on the empty input with the
  error of \<open>json.Unmarshal\<close>.
\<close>

definition initialize_request :: Message where
  "initialize_request =
     \<lparr>JSONRPC = ''2.0'', ID = Some \<lparr>Value = Some (IntValue 1)\<rparr>, Method = ''initialize'',
      Params = ''{}'', Result = [], Error = None\<rparr>"

definition initialize_request_json :: bytes where
  \<open>initialize_request_json = ''{"jsonrpc":"2.0","id":1,"method":"initialize","params":{}}''\<close>

definition version_only :: Message where
  "version_only = zero_Message\<lparr>JSONRPC := ''2.0''\<rparr>"

definition version_only_json :: bytes where
  \<open>version_only_json = ''{"jsonrpc":"2.0"}''\<close>

definition version_only_frame :: bytes where
  \<open>version_only_frame =
     ''Content-Length: 17'' @ [CHR 0x0D, CHR 0x0A, CHR 0x0D, CHR 0x0A] @ ''{"jsonrpc":"2.0"}''\<close>


text \<open>A header block without the length header, and one whose length is not a number.\<close>

definition no_length_frame :: bytes where
  \<open>no_length_frame =
     ''Content-Type: application/vscode-jsonrpc; charset=utf-8''
       @ [CHR 0x0D, CHR 0x0A, CHR 0x0D, CHR 0x0A] @ ''{"jsonrpc":"2.0"}''\<close>


definition example_json :: "(Message \<times> bytes) list" where
  "example_json =
     [(initialize_request, initialize_request_json),
      (version_only, version_only_json)]"

definition example_idString :: "MessageID \<Rightarrow> string" where
  "example_idString i =
     (case Value i of
        Some (IntValue n) \<Rightarrow> format_d n
      | Some (StringValue s) \<Rightarrow> s
      | None \<Rightarrow> ''<nil>'')"

text \<open>
  An example of Go values of type \<open>any\<close>: \<open>Some raw\<close> is a value that marshals to the
  JSON text \<open>raw\<close>, and \<open>None\<close> is a value that \<open>json.Marshal\<close> rejects, such as a
  channel.
\<close>

definition example_lib :: "(bytes, bytes option) lib" where
  "example_lib =
     \<lparr>json_Marshal =
        (\<lambda>m. case map_of example_json m of
                Some b \<Rightarrow> Inr b
              | None \<Rightarrow> Inl ''json: unsupported value''),
      json_Unmarshal =
        (\<lambda>b. case map_of (map (\<lambda>(m, b). (b, m)) example_json) b of
                Some m \<Rightarrow> Inr m
              | None \<Rightarrow>
                  Inl (if b = [] then ''unexpected end of JSON input''
                       else ''json: input outside the examples'')),
      json_Marshal_any =
        (\<lambda>v. case v of
                Some raw \<Rightarrow> Inr raw
              | None \<Rightarrow> Inl ''json: unsupported type: chan int''),
      idString = example_idString,
      ContentModified = - 32801,
      ServerCancelled = - 32802,
      Write = Buffer_Write\<rparr>"

text \<open>A client with three handlers for requests of the server and no pending call.\<close>

definition example_client :: "(bytes, bytes option) Client" where
  "example_client =
     \<lparr>stdin = [], stdout = [], nextID = 0, handlers = Map.empty,
      chans = (\<lambda>a. make_chan), next_chan = 0,
      serverRequestHandlers =
        [''workspace/configuration'' \<mapsto> (\<lambda>params. Inr (Some ''[{}]'')),
         ''workspace/applyEdit'' \<mapsto> (\<lambda>params. Inl ''failed to apply edits''),
         ''client/registerCapability'' \<mapsto> (\<lambda>params. Inr None)],
      notificationHandlers = Map.empty, spawned = [], log = []\<rparr>"


text \<open>Two responses to the first call of the example client, one of them an error.\<close>

definition initialize_failed :: Message where
  "initialize_failed =
     zero_Message\<lparr>JSONRPC := ''2.0'', ID := Some \<lparr>Value = Some (IntValue 1)\<rparr>,
                  Error := Some \<lparr>Code = - 32600, Message = ''invalid request''\<rparr>\<rparr>"

definition initialize_response :: Message where
  "initialize_response =
     zero_Message\<lparr>JSONRPC := ''2.0'', ID := Some \<lparr>Value = Some (IntValue 1)\<rparr>,
                  Result := ''{}''\<rparr>"

section \<open>Properties of the wire codec\<close>

subsection \<open>Printing and scanning the length\<close>

lemma digit_char_props:
  "d < 10 \<Longrightarrow> isDigit (digit_char d) \<and> digit_val (digit_char d) = d \<and> \<not> asciiSpace (digit_char d)
     \<and> digit_char d \<noteq> CHR ''-'' \<and> digit_char d \<noteq> CHR ''+'' \<and> digit_char d \<noteq> CHR 0x0A"
proof -
  assume "d < 10"
  then have "d \<in> {0,1,2,3,4,5,6,7,8,9}" by auto
  then show ?thesis
    by (auto simp: digit_char_def isDigit_def digit_val_def asciiSpace_def)
qed

lemma decimal_digits: "c \<in> set (decimal n) \<Longrightarrow> isDigit c"
proof (induction n arbitrary: c rule: decimal.induct)
  case (1 n)
  then show ?case
    by (subst (asm) (2) decimal.simps) (auto simp: digit_char_props split: if_splits)
qed

lemma decimal_nonempty: "decimal n \<noteq> []"
  by (subst decimal.simps) simp

lemma digits_val_snoc: "digits_val (ds @ [c]) = 10 * digits_val ds + digit_val c"
  by (simp add: digits_val_def)

lemma digits_val_decimal: "digits_val (decimal n) = n"
proof (induction n rule: decimal.induct)
  case (1 n)
  show ?case
  proof (cases "n < 10")
    case True
    then show ?thesis
      by (subst decimal.simps) (simp add: digits_val_def digit_char_props)
  next
    case False
    then have "digits_val (decimal (n div 10)) = n div 10" using 1 by simp
    with False show ?thesis
      by (subst decimal.simps) (simp add: digits_val_snoc digit_char_props)
  qed
qed

lemma isDigit_props:
  "isDigit c \<Longrightarrow> \<not> asciiSpace c \<and> c \<noteq> CHR ''-'' \<and> c \<noteq> CHR ''+'' \<and> c \<noteq> CHR 0x0A \<and> c \<noteq> CHR 0x0D"
  by (auto simp: isDigit_def asciiSpace_def)

lemma takeWhile_all: "(\<And>c. c \<in> set xs \<Longrightarrow> P c) \<Longrightarrow> takeWhile P xs = xs"
  by (induction xs) auto

lemma scanInt_decimal:
  assumes "n < 2 ^ 63"
  shows "scanInt (decimal n) = Inr (int n)"
proof -
  obtain d ds where ds: "decimal n = d # ds"
    using decimal_nonempty [of n] by (cases "decimal n") auto
  have dig: "\<And>c. c \<in> set (decimal n) \<Longrightarrow> isDigit c" by (rule decimal_digits)
  have d: "isDigit d" using dig ds by simp
  have tw: "takeWhile isDigit (d # ds) = d # ds"
    using takeWhile_all [of "d # ds" isDigit] dig ds by simp
  have pi: "ParseInt (d # ds) = Inr (int n)"
    using assms d isDigit_props [of d] digits_val_decimal [of n] ds
    by (simp add: ParseInt_def)
  show ?thesis
    using d isDigit_props [of d] pi
    by (simp add: scanInt_def ds tw del: takeWhile.simps)
qed

lemma Sscanf_Content_Length_decimal:
  assumes "n < 2 ^ 63"
  shows "Sscanf_Content_Length (''Content-Length: '' @ decimal n) = Inr (int n)"
  using scanInt_decimal [OF assms]
  by (simp add: Sscanf_Content_Length_def HasPrefix_def asciiSpace_def)

lemma TrimSpace_snoc_space:
  assumes "asciiSpace c"
  shows "TrimSpace (l @ [c]) = TrimSpace l"
proof (cases "\<forall>x\<in>set l. asciiSpace x")
  case True
  then have a: "dropWhile asciiSpace l = []" and b: "dropWhile asciiSpace (l @ [c]) = []"
    using assms by simp_all
  show ?thesis unfolding TrimSpace_def a b by simp
next
  case False
  then have "dropWhile asciiSpace (l @ [c]) = dropWhile asciiSpace l @ [c]"
    by (auto simp: dropWhile_append1)
  then show ?thesis using assms by (simp add: TrimSpace_def)
qed

lemma TrimSpace_id:
  assumes "l \<noteq> []" "\<not> asciiSpace (hd l)" "\<not> asciiSpace (last l)"
  shows "TrimSpace l = l"
proof -
  have 1: "dropWhile asciiSpace l = l" using assms by (cases l) auto
  have "rev l \<noteq> []" "\<not> asciiSpace (hd (rev l))" using assms by (auto simp: hd_rev)
  then have 2: "dropWhile asciiSpace (rev l) = rev l" by (cases "rev l") auto
  show ?thesis by (simp add: TrimSpace_def 1 2)
qed

lemma ReadString_line:
  "delim \<notin> set l \<Longrightarrow> ReadString delim (l @ delim # rest) = (l @ [delim], None, rest)"
proof -
  assume a: "delim \<notin> set l"
  then have "takeWhile (\<lambda>c. c \<noteq> delim) (l @ delim # rest) = l"
    by (induction l) auto
  then show ?thesis by (simp add: ReadString_def)
qed

lemma read_headers_blank:
  "read_headers cl (CHR 0x0D # CHR 0x0A # rest) = ([], Ok (cl, rest))"
  using ReadString_line [of "CHR 0x0A" "[CHR 0x0D]" rest]
  by (subst read_headers.simps) (simp add: TrimSpace_def asciiSpace_def)

lemma frame_header_line:
  "frame_header data = (''Content-Length: '' @ decimal (length data) @ [CHR 0x0D]) @ CHR 0x0A # [CHR 0x0D, CHR 0x0A]"
  by (simp add: frame_header_def format_d_def)

lemma read_headers_frame:
  assumes "length data < 2 ^ 63"
  shows "read_headers cl (frame_header data @ rest) = ([header_log], Ok (int (length data), rest))"
proof -
  let ?n = "length data"
  let ?l = "''Content-Length: '' @ decimal ?n"
  have nl: "CHR 0x0A \<notin> set (?l @ [CHR 0x0D])"
    using decimal_digits [of "CHR 0x0A" ?n] isDigit_props [of "CHR 0x0A"] by auto
  have rs: "ReadString (CHR 0x0A) (frame_header data @ rest)
      = ((?l @ [CHR 0x0D]) @ [CHR 0x0A], None, CHR 0x0D # CHR 0x0A # rest)"
    using ReadString_line [OF nl, of "CHR 0x0D # CHR 0x0A # rest"]
    by (simp add: frame_header_line)
  have lastd: "\<not> asciiSpace (last ?l)"
    using decimal_nonempty [of ?n] decimal_digits [of "last (decimal ?n)" ?n] isDigit_props
    by simp
  have tl: "TrimSpace ?l = ?l"
    by (rule TrimSpace_id) (use lastd in \<open>simp_all add: asciiSpace_def\<close>)
  have ts: "TrimSpace ((?l @ [CHR 0x0D]) @ [CHR 0x0A]) = ?l"
    using tl by (simp add: TrimSpace_snoc_space asciiSpace_def del: append_assoc append.simps)
  have pre: "HasPrefix ?l ''Content-Length: ''" by (simp add: HasPrefix_def)
  show ?thesis
    apply (subst read_headers.simps)
    apply (simp only: rs ts prod.case option.case pre if_True)
    using Sscanf_Content_Length_decimal [OF assms] read_headers_blank
    by simp
qed


subsection \<open>Round trip\<close>

text \<open>
  A message is well formed for a JSON codec when the codec marshals it and unmarshals the
  bytes back to the same message; the bytes are a Go slice, whose length fits an \<open>int\<close>.
\<close>

definition well_formed :: "('w, 'r) lib \<Rightarrow> Message \<Rightarrow> bool" where
  "well_formed L m =
     (case json_Marshal L m of
        Inl e \<Rightarrow> False
      | Inr data \<Rightarrow> json_Unmarshal L data = Inr m \<and> length data < 2 ^ 63)"

lemma ReadFull_exact: "ReadFull (length data) (data @ rest) = (Inr data, rest)"
  by (simp add: ReadFull_def)

lemma ReadMessage_frame:
  assumes "json_Unmarshal L data = Inr m" "length data < 2 ^ 63"
  shows "snd (ReadMessage L (frame_header data @ data @ rest)) = Ok (m, rest)"
  using assms read_headers_frame [OF assms(2), of 0 "data @ rest"]
  by (simp add: ReadMessage_def ReadFull_exact)

lemma WriteMessage_Buffer:
  assumes "Write L = Buffer_Write" "json_Marshal L m = Inr data"
  shows "fst (snd (WriteMessage L w m)) = None"
    and "snd (snd (WriteMessage L w m)) = w @ frame_header data @ data"
  using assms by (simp_all add: WriteMessage_def Buffer_Write_def)

text \<open>
  C2. For every well-formed message \<open>m\<close>, \<open>WriteMessage\<close> into an empty buffer succeeds,
  and \<open>ReadMessage\<close> on the bytes written (whatever bytes follow them on the stream)
  returns \<open>m\<close> itself, all fields equal, and leaves the bytes that follow unread.
\<close>

theorem ReadMessage_WriteMessage_roundtrip:
  assumes "Write L = Buffer_Write" and "well_formed L m"
  shows "fst (snd (WriteMessage L [] m)) = None
    \<and> snd (ReadMessage L (snd (snd (WriteMessage L [] m)) @ rest)) = Ok (m, rest)"
proof -
  obtain data where d: "json_Marshal L m = Inr data" "json_Unmarshal L data = Inr m"
    "length data < 2 ^ 63"
    using assms(2) by (auto simp: well_formed_def split: sum.splits)
  show ?thesis
    using WriteMessage_Buffer [OF assms(1) d(1), of "[]"] ReadMessage_frame [OF d(2) d(3), of rest]
    by simp
qed

theorem ReadMessage_WriteMessage_roundtrip_witness:
  "Write example_lib = Buffer_Write \<and> well_formed example_lib initialize_request
   \<and> fst (snd (WriteMessage example_lib [] initialize_request)) = None
   \<and> snd (ReadMessage example_lib (snd (snd (WriteMessage example_lib [] initialize_request)) @ []))
       = Ok (initialize_request, [])"
proof -
  have w: "Write example_lib = Buffer_Write" by (simp add: example_lib_def)
  have f: "well_formed example_lib initialize_request"
    by (simp add: well_formed_def example_lib_def example_json_def initialize_request_def
          initialize_request_json_def version_only_def version_only_json_def zero_Message_def)
  show ?thesis
    using ReadMessage_WriteMessage_roundtrip [OF w f, of "[]"] w f by simp
qed

section \<open>Properties of the dispatch loop\<close>

subsection \<open>Requests of the peer\<close>











lemmas codec_eval =
  ReadMessage_def read_headers.simps ReadString_def TrimSpace_def
  asciiSpace_def HasPrefix_def Sscanf_Content_Length_def scanInt_def isDigit_def ParseInt_def
  digits_val_def digit_val_def ReadFull_def header_log_def

lemmas example_eval =
  example_lib_def example_json_def example_client_def
  version_only_def version_only_json_def initialize_request_def initialize_request_json_def
  zero_Message_def

subsection \<open>The classes of messages\<close>

lemma read_headers_logs: "l \<in> set (fst (read_headers contentLength r)) \<Longrightarrow> l = header_log"
proof (induction contentLength r arbitrary: l rule: read_headers.induct)
  case (1 contentLength r)
  obtain line e r1 where rs: "ReadString (CHR 0x0A) r = (line, e, r1)"
    by (cases "ReadString (CHR 0x0A) r") auto
  show ?case
  proof (cases e)
    case (Some a)
    with 1(3) rs show ?thesis by (subst (asm) read_headers.simps) simp
  next
    case None
    show ?thesis
    proof (cases "TrimSpace line = []")
      case True
      with 1(3) rs None show ?thesis by (subst (asm) read_headers.simps) simp
    next
      case False
      note ne = this
      show ?thesis
      proof (cases "HasPrefix (TrimSpace line) ''Content-Length: ''")
        case True
        show ?thesis
        proof (cases "Sscanf_Content_Length (TrimSpace line)")
          case (Inl a)
          with 1(3) rs None ne True show ?thesis
            by (subst (asm) read_headers.simps) simp
        next
          case (Inr m)
          have "l = header_log \<or> l \<in> set (fst (read_headers m r1))"
            using 1(3) rs None ne True Inr
            by (subst (asm) read_headers.simps) (cases "read_headers m r1", auto)
          with 1(1) [OF rs [symmetric, unfolded None] refl refl ne True Inr]
          show ?thesis by blast
        qed
      next
        case False
        have "l = header_log \<or> l \<in> set (fst (read_headers contentLength r1))"
          using 1(3) rs None ne False
          by (subst (asm) read_headers.simps) (cases "read_headers contentLength r1", auto)
        with 1(2) [OF rs [symmetric, unfolded None] refl refl ne False]
        show ?thesis by blast
      qed
    qed
  qed
qed

lemma ReadMessage_logs_unclassified:
  assumes "ReadMessage L r = (rlogs, Ok (msg, r'))" "Method msg = []" "\<not> has_id msg"
    and "l \<in> set rlogs"
  shows "fst (snd l) = LevelDebug"
proof -
  obtain hl hres where h: "read_headers 0 r = (hl, hres)"
    by (cases "read_headers 0 r") auto
  have hl: "\<And>x. x \<in> set hl \<Longrightarrow> x = header_log"
    using read_headers_logs [of _ 0 r] h by simp
  have "rlogs = hl @ [(wireLogger, LevelDebug, ''<- Received: %s'')]"
    using assms(1-3) h
    by (auto simp: ReadMessage_def received_kind_log_def
          split: result.splits if_splits prod.splits sum.splits)
  with assms(4) have "l \<in> set hl \<or> l = (wireLogger, LevelDebug, ''<- Received: %s'')"
    by auto
  then show ?thesis
  proof
    assume "l \<in> set hl"
    then have "l = header_log" by (rule hl)
    then show ?thesis by (simp add: header_log_def)
  next
    assume "l = (wireLogger, LevelDebug, ''<- Received: %s'')"
    then show ?thesis by simp
  qed
qed

text \<open>
  C8, as the code has it. The three classes exclude each other, but they do not cover every
  decoded message: a message with an empty method and a nil identifier is in none of them.
  For such a message \<open>ReadMessage\<close> writes only its debug lines and the loop writes no log
  line at all, warning or other; the loop leaves the client as it is and goes on with the
  next message.
\<close>

theorem classes_exclusive_rest_dropped_silently:
  "\<not> (is_peer_request msg \<and> is_peer_notification msg)
   \<and> \<not> (is_peer_request msg \<and> is_response msg)
   \<and> \<not> (is_peer_notification msg \<and> is_response msg)
   \<and> ((\<not> is_peer_request msg \<and> \<not> is_peer_notification msg \<and> \<not> is_response msg)
        = (Method msg = [] \<and> \<not> has_id msg))
   \<and> (Method msg = [] \<and> \<not> has_id msg
        \<longrightarrow> dispatch L c msg = Continue c \<and> received_kind_log msg = [])
   \<and> (Method msg = [] \<and> \<not> has_id msg \<and> ReadMessage L (stdout c) = (rlogs, Ok (msg, r'))
        \<longrightarrow> handleMessages L c = handleMessages L (add_log rlogs (c\<lparr>stdout := r'\<rparr>))
            \<and> (\<forall>l\<in>set rlogs. fst (snd l) = LevelDebug))"
proof -
  have a: "\<not> (is_peer_request msg \<and> is_peer_notification msg)"
    "\<not> (is_peer_request msg \<and> is_response msg)"
    "\<not> (is_peer_notification msg \<and> is_response msg)"
    "(\<not> is_peer_request msg \<and> \<not> is_peer_notification msg \<and> \<not> is_response msg)
        = (Method msg = [] \<and> \<not> has_id msg)"
    by (auto simp: is_peer_request_def is_peer_notification_def is_response_def)
  have b: "Method msg = [] \<and> \<not> has_id msg
        \<longrightarrow> dispatch L c msg = Continue c \<and> received_kind_log msg = []"
    by (simp add: dispatch_def received_kind_log_def)
  have d: "Method msg = [] \<and> \<not> has_id msg \<and> ReadMessage L (stdout c) = (rlogs, Ok (msg, r'))
        \<longrightarrow> handleMessages L c = handleMessages L (add_log rlogs (c\<lparr>stdout := r'\<rparr>))
            \<and> (\<forall>l\<in>set rlogs. fst (snd l) = LevelDebug)"
  proof (intro impI, elim conjE)
    assume m: "Method msg = []" "\<not> has_id msg"
      and r: "ReadMessage L (stdout c) = (rlogs, Ok (msg, r'))"
    have "handleMessages L c = handleMessages L (add_log rlogs (c\<lparr>stdout := r'\<rparr>))"
      by (subst handleMessages.simps) (simp add: r m dispatch_def)
    moreover have "\<forall>l\<in>set rlogs. fst (snd l) = LevelDebug"
      using ReadMessage_logs_unclassified [OF r m] by blast
    ultimately show "handleMessages L c = handleMessages L (add_log rlogs (c\<lparr>stdout := r'\<rparr>))
            \<and> (\<forall>l\<in>set rlogs. fst (snd l) = LevelDebug)" ..
  qed
  from a b d show ?thesis by blast
qed

theorem classes_exclusive_rest_dropped_silently_witness:
  "Method version_only = [] \<and> \<not> has_id version_only
   \<and> ReadMessage example_lib (stdout (example_client\<lparr>stdout := version_only_frame\<rparr>))
       = ([(wireLogger, LevelDebug, ''<- Header: %s''), (wireLogger, LevelDebug, ''<- Received: %s'')],
          Ok (version_only, []))
   \<and> \<not> is_peer_request version_only \<and> \<not> is_peer_notification version_only
   \<and> \<not> is_response version_only
   \<and> dispatch example_lib example_client version_only = Continue example_client
   \<and> handleMessages example_lib (example_client\<lparr>stdout := version_only_frame\<rparr>)
       = handleMessages example_lib
           (add_log [(wireLogger, LevelDebug, ''<- Header: %s''),
                     (wireLogger, LevelDebug, ''<- Received: %s'')]
              (example_client\<lparr>stdout := version_only_frame, stdout := []\<rparr>))"
proof -
  have m: "Method version_only = [] \<and> \<not> has_id version_only"
    by (simp add: has_id_def example_eval)
  have r: "ReadMessage example_lib (stdout (example_client\<lparr>stdout := version_only_frame\<rparr>))
       = ([(wireLogger, LevelDebug, ''<- Header: %s''), (wireLogger, LevelDebug, ''<- Received: %s'')],
          Ok (version_only, []))"
    by (simp add: version_only_frame_def codec_eval example_eval received_kind_log_def has_id_def)
  note t = classes_exclusive_rest_dropped_silently
    [of version_only example_lib _
        "[(wireLogger, LevelDebug, ''<- Header: %s''), (wireLogger, LevelDebug, ''<- Received: %s'')]"
        "[]"]
  from t [of example_client] m
  have 1: "\<not> is_peer_request version_only \<and> \<not> is_peer_notification version_only
     \<and> \<not> is_response version_only
     \<and> dispatch example_lib example_client version_only = Continue example_client"
    by blast
  from t [of "example_client\<lparr>stdout := version_only_frame\<rparr>"] m r
  have 2: "handleMessages example_lib (example_client\<lparr>stdout := version_only_frame\<rparr>)
       = handleMessages example_lib
           (add_log [(wireLogger, LevelDebug, ''<- Header: %s''),
                     (wireLogger, LevelDebug, ''<- Received: %s'')]
              (example_client\<lparr>stdout := version_only_frame, stdout := []\<rparr>))"
    by blast
  from m r 1 2 show ?thesis by blast
qed

text \<open>
  The message \<open>{"jsonrpc":"2.0"}\<close> decodes, is in none of the three classes, and the loop
  that reads it logs no warning: the whole log of the run is two debug lines of the codec
  and the line about the end of the connection.
\<close>

theorem unclassified_message_counterexample:
  "snd (ReadMessage example_lib version_only_frame) = Ok (version_only, [])
   \<and> \<not> is_peer_request version_only \<and> \<not> is_peer_notification version_only
   \<and> \<not> is_response version_only
   \<and> handleMessages example_lib (example_client\<lparr>stdout := version_only_frame\<rparr>)
       = (ConnectionClosedEOF (HeaderReadFailed EOF),
          example_client\<lparr>stdout := [],
            log := [(wireLogger, LevelDebug, ''<- Header: %s''),
                    (wireLogger, LevelDebug, ''<- Received: %s''),
                    (lspLogger, LevelInfo, ''LSP connection closed (EOF)'')]\<rparr>)"
  by (simp add: version_only_frame_def codec_eval example_eval
        handleMessages.simps dispatch_def add_log_def has_id_def received_kind_log_def
        is_peer_request_def is_peer_notification_def is_response_def)


subsection \<open>The end of the loop\<close>








section \<open>Properties of the header block\<close>

lemma snd_with_log [simp]: "snd (with_log l p) = snd p"
  by (cases p) simp

lemma read_headers_skip_line:
  assumes "CHR 0x0A \<notin> set l" "TrimSpace l \<noteq> []"
    "\<not> HasPrefix (TrimSpace l) ''Content-Length: ''"
  shows "snd (read_headers contentLength (l @ CHR 0x0A # rest)) = snd (read_headers contentLength rest)"
  using assms ReadString_line [OF assms(1), of rest]
    TrimSpace_snoc_space [of "CHR 0x0A" l]
  by (subst read_headers.simps) (simp add: asciiSpace_def)

lemma read_headers_skip_lines:
  assumes "\<forall>l\<in>set ls. CHR 0x0A \<notin> set l \<and> TrimSpace l \<noteq> []
             \<and> \<not> HasPrefix (TrimSpace l) ''Content-Length: ''"
  shows "snd (read_headers contentLength (concat (map (\<lambda>l. l @ [CHR 0x0A]) ls) @ rest))
           = snd (read_headers contentLength rest)"
  using assms
proof (induction ls)
  case Nil
  then show ?case by simp
next
  case (Cons l ls)
  then show ?case
    using read_headers_skip_line [of l contentLength "concat (map (\<lambda>l. l @ [CHR 0x0A]) ls) @ rest"]
    by simp
qed

lemma read_headers_bad_length:
  assumes "CHR 0x0A \<notin> set l" "HasPrefix (TrimSpace l) ''Content-Length: ''"
    "Sscanf_Content_Length (TrimSpace l) = Inl e"
  shows "snd (read_headers contentLength (l @ CHR 0x0A # rest)) = Err (InvalidContentLength e)"
proof -
  have "TrimSpace l \<noteq> []" using assms(2) by (auto simp: HasPrefix_def)
  then show ?thesis
    using assms ReadString_line [OF assms(1), of rest] TrimSpace_snoc_space [of "CHR 0x0A" l]
    by (subst read_headers.simps) (simp add: asciiSpace_def)
qed

lemma read_headers_end_of_block:
  assumes "CHR 0x0A \<notin> set l" "TrimSpace l = []"
  shows "snd (read_headers contentLength (l @ CHR 0x0A # rest)) = Ok (contentLength, rest)"
  using assms ReadString_line [OF assms(1), of rest] TrimSpace_snoc_space [of "CHR 0x0A" l]
  by (subst read_headers.simps) (simp add: asciiSpace_def)

lemma snd_ReadMessage:
  "snd (ReadMessage L r) =
     (case snd (read_headers 0 r) of
        Err e \<Rightarrow> Err e
      | Panic p \<Rightarrow> Panic p
      | Ok (contentLength, r') \<Rightarrow>
          if contentLength < 0 then Panic ''runtime error: makeslice: len out of range''
          else (case ReadFull (nat contentLength) r' of
                  (Inl e, r'') \<Rightarrow> Err (ContentReadFailed e)
                | (Inr content, r'') \<Rightarrow>
                    (case json_Unmarshal L content of
                       Inl e \<Rightarrow> Err (UnmarshalFailed e)
                     | Inr msg \<Rightarrow> Ok (msg, r''))))"
  by (cases "read_headers 0 r")
     (auto simp: ReadMessage_def split: result.splits prod.splits sum.splits)

text \<open>
  C3, as the code has it. Take a header block of ASCII lines: first the lines \<open>ls\<close>, none
  of them empty and none a length header, then the line \<open>l0\<close>. If \<open>l0\<close> is a length
  header whose value \<open>Sscanf\<close> cannot scan, \<open>ReadMessage\<close> fails with the error of the
  header (\<open>invalid Content-Length\<close>), which is neither the error of a short body nor the
  error of a body that does not parse. If \<open>l0\<close> is the empty line that ends the block, so
  that the length header is missing, there is no error of the header: the length is 0, the
  body read is empty, and \<open>ReadMessage\<close> returns what \<open>json.Unmarshal\<close> makes of the empty
  body, which is the error of a body that does not parse when the decoder rejects it.
\<close>

theorem content_length_header_errors:
  assumes "\<forall>l\<in>set ls. CHR 0x0A \<notin> set l \<and> TrimSpace l \<noteq> []
             \<and> \<not> HasPrefix (TrimSpace l) ''Content-Length: ''"
    and "CHR 0x0A \<notin> set l0"
    and "\<forall>l\<in>set (l0 # ls). \<forall>ch\<in>set l. (of_char ch :: nat) < 128"
  shows "(HasPrefix (TrimSpace l0) ''Content-Length: ''
            \<and> Sscanf_Content_Length (TrimSpace l0) = Inl e
          \<longrightarrow> snd (ReadMessage L (concat (map (\<lambda>l. l @ [CHR 0x0A]) ls) @ l0 @ CHR 0x0A # rest))
                = Err (InvalidContentLength e))
       \<and> (TrimSpace l0 = []
          \<longrightarrow> snd (ReadMessage L (concat (map (\<lambda>l. l @ [CHR 0x0A]) ls) @ l0 @ CHR 0x0A # rest))
                = (case json_Unmarshal L [] of
                     Inl e \<Rightarrow> Err (UnmarshalFailed e)
                   | Inr m \<Rightarrow> Ok (m, rest)))"
proof -
  note skip = read_headers_skip_lines [OF assms(1), of 0 "l0 @ CHR 0x0A # rest"]
  show ?thesis
  proof (intro conjI impI)
    assume "HasPrefix (TrimSpace l0) ''Content-Length: ''
            \<and> Sscanf_Content_Length (TrimSpace l0) = Inl e"
    then have "snd (read_headers 0 (l0 @ CHR 0x0A # rest)) = Err (InvalidContentLength e)"
      using read_headers_bad_length [OF assms(2)] by blast
    with skip show "snd (ReadMessage L (concat (map (\<lambda>l. l @ [CHR 0x0A]) ls) @ l0 @ CHR 0x0A # rest))
                = Err (InvalidContentLength e)"
      by (simp add: snd_ReadMessage)
  next
    assume "TrimSpace l0 = []"
    then have "snd (read_headers 0 (l0 @ CHR 0x0A # rest)) = Ok (0, rest)"
      using read_headers_end_of_block [OF assms(2)] by blast
    with skip show "snd (ReadMessage L (concat (map (\<lambda>l. l @ [CHR 0x0A]) ls) @ l0 @ CHR 0x0A # rest))
                = (case json_Unmarshal L [] of
                     Inl e \<Rightarrow> Err (UnmarshalFailed e)
                   | Inr m \<Rightarrow> Ok (m, rest))"
      by (simp add: snd_ReadMessage ReadFull_def split: sum.splits)
  qed
qed

theorem content_length_header_errors_witness:
  "snd (ReadMessage example_lib
          (concat (map (\<lambda>l. l @ [CHR 0x0A]) [''Content-Type: utf-8'' @ [CHR 0x0D]])
             @ (''Content-Length: seventeen'' @ [CHR 0x0D]) @ CHR 0x0A # ''{}''))
     = Err (InvalidContentLength (ScanSyntax ''expected integer''))
   \<and> snd (ReadMessage example_lib
          (concat (map (\<lambda>l. l @ [CHR 0x0A]) [''Content-Type: utf-8'' @ [CHR 0x0D]])
             @ [CHR 0x0D] @ CHR 0x0A # ''{}''))
     = Err (UnmarshalFailed ''unexpected end of JSON input'')"
proof -
  let ?ls = "[''Content-Type: utf-8'' @ [CHR 0x0D]]"
  let ?bad = "''Content-Length: seventeen'' @ [CHR 0x0D]"
  have ls: "\<forall>l\<in>set ?ls. CHR 0x0A \<notin> set l \<and> TrimSpace l \<noteq> []
             \<and> \<not> HasPrefix (TrimSpace l) ''Content-Length: ''"
    by (simp add: TrimSpace_def asciiSpace_def HasPrefix_def)
  have nl: "CHR 0x0A \<notin> set ?bad" "CHR 0x0A \<notin> set [CHR 0x0D]" by simp_all
  have ascii: "\<forall>l\<in>set (?bad # ?ls). \<forall>ch\<in>set l. (of_char ch :: nat) < 128"
    "\<forall>l\<in>set ([CHR 0x0D] # ?ls). \<forall>ch\<in>set l. (of_char ch :: nat) < 128"
    by simp_all
  have bad: "HasPrefix (TrimSpace ?bad) ''Content-Length: ''
     \<and> Sscanf_Content_Length (TrimSpace ?bad) = Inl (ScanSyntax ''expected integer'')"
    by (simp add: TrimSpace_def asciiSpace_def HasPrefix_def Sscanf_Content_Length_def
          scanInt_def isDigit_def)
  have blank: "TrimSpace [CHR 0x0D] = []" by (simp add: TrimSpace_def asciiSpace_def)
  have u: "json_Unmarshal example_lib [] = Inl ''unexpected end of JSON input''"
    by (simp add: example_eval)
  from content_length_header_errors [OF ls nl(1) ascii(1), of "ScanSyntax ''expected integer''"
      example_lib "''{}''"] bad
  have 1: "snd (ReadMessage example_lib
          (concat (map (\<lambda>l. l @ [CHR 0x0A]) ?ls) @ ?bad @ CHR 0x0A # ''{}''))
     = Err (InvalidContentLength (ScanSyntax ''expected integer''))"
    by blast
  from content_length_header_errors [OF ls nl(2) ascii(2), of _ example_lib "''{}''"] blank u
  have 2: "snd (ReadMessage example_lib
          (concat (map (\<lambda>l. l @ [CHR 0x0A]) ?ls) @ [CHR 0x0D] @ CHR 0x0A # ''{}''))
     = Err (UnmarshalFailed ''unexpected end of JSON input'')"
    by simp
  from 1 2 show ?thesis by blast
qed

text \<open>
  A header block that has a content type and no length: \<open>ReadMessage\<close> fails, but with
  the error of a body that does not parse, not with the error of the header.
\<close>

theorem missing_length_header_counterexample:
  "ReadMessage example_lib no_length_frame
     = ([(wireLogger, LevelDebug, ''<- Header: %s''), (wireLogger, LevelDebug, ''<- Received: %s'')],
        Err (UnmarshalFailed ''unexpected end of JSON input''))"
  by (simp add: no_length_frame_def codec_eval example_eval)

section \<open>Properties of the monitor of the parent process\<close>

text \<open>
  C7, as the code has it. The monitor starts the shutdown at the first tick, before
  \<open>done\<close> is closed, whose parent identifier differs from the one read at the start while
  one of the two is 1, the identifier of init; and only then. A sample that differs from
  the value at the start when neither is 1 does not start the shutdown.
\<close>

theorem monitor_parent_death:
  "((monitor ppid evs = ParentDeath)
      = (\<exists>before currentPpid after.
           evs = before @ Tick currentPpid # after \<and> DoneClosed \<notin> set before
           \<and> currentPpid \<noteq> ppid \<and> (currentPpid = 1 \<or> ppid = 1)))
   \<and> (ppid \<noteq> 1 \<and> Tick 1 \<notin> set evs \<longrightarrow> monitor ppid evs \<noteq> ParentDeath)"
proof -
  have 1: "(monitor ppid evs = ParentDeath)
      = (\<exists>before currentPpid after.
           evs = before @ Tick currentPpid # after \<and> DoneClosed \<notin> set before
           \<and> currentPpid \<noteq> ppid \<and> (currentPpid = 1 \<or> ppid = 1))"
  proof (induction ppid evs rule: monitor.induct)
    case (1 ppid)
    then show ?case by simp
  next
    case (2 ppid currentPpid evs)
    show ?case
    proof (cases "currentPpid \<noteq> ppid \<and> (currentPpid = 1 \<or> ppid = 1)")
      case True
      then have "Tick currentPpid # evs = [] @ Tick currentPpid # evs \<and> DoneClosed \<notin> set []
           \<and> currentPpid \<noteq> ppid \<and> (currentPpid = 1 \<or> ppid = 1)" by simp
      then have "\<exists>before cur after.
           Tick currentPpid # evs = before @ Tick cur # after \<and> DoneClosed \<notin> set before
           \<and> cur \<noteq> ppid \<and> (cur = 1 \<or> ppid = 1)" by blast
      with True show ?thesis by simp
    next
      case False
      have "(\<exists>before cur after.
           Tick currentPpid # evs = before @ Tick cur # after \<and> DoneClosed \<notin> set before
           \<and> cur \<noteq> ppid \<and> (cur = 1 \<or> ppid = 1))
        = (\<exists>before cur after.
           evs = before @ Tick cur # after \<and> DoneClosed \<notin> set before
           \<and> cur \<noteq> ppid \<and> (cur = 1 \<or> ppid = 1))" (is "?l = ?r")
      proof
        assume ?l
        then obtain before cur after where
          b: "Tick currentPpid # evs = before @ Tick cur # after" "DoneClosed \<notin> set before"
            "cur \<noteq> ppid \<and> (cur = 1 \<or> ppid = 1)" by blast
        show ?r
        proof (cases before)
          case Nil
          with b False show ?thesis by auto
        next
          case (Cons x xs)
          with b have "evs = xs @ Tick cur # after" "DoneClosed \<notin> set xs" by auto
          with b(3) show ?thesis by blast
        qed
      next
        assume ?r
        then obtain before cur after where
          b: "evs = before @ Tick cur # after" "DoneClosed \<notin> set before"
            "cur \<noteq> ppid \<and> (cur = 1 \<or> ppid = 1)" by blast
        then have "Tick currentPpid # evs = (Tick currentPpid # before) @ Tick cur # after"
          "DoneClosed \<notin> set (Tick currentPpid # before)" by auto
        with b(3) show ?l by blast
      qed
      moreover have "monitor ppid (Tick currentPpid # evs) = monitor ppid evs"
        using False by auto
      moreover note 2 [OF False]
      ultimately show ?thesis by (simp only:)
    qed
  next
    case (3 ppid evs)
    have "\<not> (\<exists>before cur after.
           DoneClosed # evs = before @ Tick cur # after \<and> DoneClosed \<notin> set before
           \<and> cur \<noteq> ppid \<and> (cur = 1 \<or> ppid = 1))"
    proof
      assume "\<exists>before cur after.
           DoneClosed # evs = before @ Tick cur # after \<and> DoneClosed \<notin> set before
           \<and> cur \<noteq> ppid \<and> (cur = 1 \<or> ppid = 1)"
      then obtain before cur after where
        b: "DoneClosed # evs = before @ Tick cur # after" "DoneClosed \<notin> set before" by blast
      then show False by (cases before) auto
    qed
    then show ?case by simp
  qed
  have 2: "ppid \<noteq> 1 \<and> Tick 1 \<notin> set evs \<longrightarrow> monitor ppid evs \<noteq> ParentDeath"
    by (induction ppid evs rule: monitor.induct) auto
  from 1 2 show ?thesis by blast
qed

theorem monitor_parent_death_witness:
  "(4242::int) \<noteq> 1 \<and> Tick 1 \<notin> set [Tick 4242, Tick 977, Tick 977]
   \<and> monitor 4242 [Tick 4242, Tick 977, Tick 977] \<noteq> ParentDeath
   \<and> monitor 4242 [Tick 4242, Tick 1, DoneClosed] = ParentDeath"
proof -
  have a: "(4242::int) \<noteq> 1 \<and> Tick 1 \<notin> set [Tick 4242, Tick 977, Tick 977]" by simp
  have b: "\<exists>before currentPpid after.
       [Tick 4242, Tick 1, DoneClosed] = before @ Tick currentPpid # after
       \<and> DoneClosed \<notin> set before \<and> currentPpid \<noteq> 4242 \<and> (currentPpid = 1 \<or> (4242::int) = 1)"
    by (intro exI [of _ "[Tick 4242]"] exI [of _ 1] exI [of _ "[DoneClosed]"]) simp
  from monitor_parent_death [of 4242 "[Tick 4242, Tick 977, Tick 977]"] a
  have 1: "monitor 4242 [Tick 4242, Tick 977, Tick 977] \<noteq> ParentDeath" by blast
  from monitor_parent_death [of 4242 "[Tick 4242, Tick 1, DoneClosed]"] b
  have 2: "monitor 4242 [Tick 4242, Tick 1, DoneClosed] = ParentDeath" by blast
  from a 1 2 show ?thesis by blast
qed

text \<open>
  The parent was 4242 at the start and the samples say 977, as after the process was
  adopted by a subreaper: the sampled identifier differs from the value at the start, and
  the monitor goes on polling.
\<close>

theorem monitor_reparented_counterexample:
  "(977::int) \<noteq> 4242 \<and> monitor 4242 [Tick 977, Tick 977] = StillPolling"
  by simp

section \<open>Properties of Call\<close>

lemma Call_send_cases:
  fixes L :: "('w, 'r) lib" and c :: "('w, 'r) Client" and meth :: string and raw :: bytes
  assumes "json_Marshal_any L params = Inr raw"
  defines "msg \<equiv> zero_Message\<lparr>JSONRPC := ''2.0'',
                     ID := Some \<lparr>Value = Some (IntValue (nextID c + 1))\<rparr>,
                     Method := meth, Params := raw\<rparr>"
    and "key \<equiv> idString L \<lparr>Value = Some (IntValue (nextID c + 1))\<rparr>"
  shows "(\<exists>c'. Call_send L c meth params = Waiting key (next_chan c) c'
            \<and> fst (snd (WriteMessage L (stdin c) msg)) = None
            \<and> handlers c' = (handlers c)(key \<mapsto> next_chan c)
            \<and> chans c' = (chans c)(next_chan c := make_chan))
       \<or> (\<exists>e c'. Call_send L c meth params
                    = Returned (Some (''failed to send request: '' @ e)) NoValue c'
            \<and> fst (snd (WriteMessage L (stdin c) msg)) = Some e
            \<and> handlers c' key = None)"
proof -
  obtain wlogs err w' where w: "WriteMessage L (stdin c) msg = (wlogs, err, w')"
    by (cases "WriteMessage L (stdin c) msg" rule: prod_cases3) auto
  show ?thesis
  proof (cases err)
    case None
    with w assms(1) show ?thesis
      by (simp add: Call_send_def NewRequest_def Let_def add_log_def msg_def key_def)
  next
    case (Some e)
    with w assms(1) show ?thesis
      by (simp add: Call_send_def NewRequest_def Let_def add_log_def unregister_def
            msg_def key_def)
  qed
qed


lemma Call_send_errors:
  assumes "Call_send L c method params = Returned e v c'"
  shows "\<exists>t. e = Some (''failed to create request: '' @ t)
           \<or> e = Some (''failed to send request: '' @ t)"
  using assms
  by (auto simp: Call_send_def Let_def split: sum.splits option.splits prod.splits)

text \<open>
  C6, as the code has it. Registering the pending call never fails: whatever the table
  holds, also when it has an entry under the key of the new identifier already, a call
  whose request is created and written puts its fresh channel under the key, in place of
  what was there, and waits. The only errors \<open>Call\<close> returns before it waits are those of
  creating and of sending the request.
\<close>

theorem Call_registers_over_existing_entry:
  "(json_Marshal_any L params = Inr raw
      \<and> fst (snd (WriteMessage L (stdin c)
                 (zero_Message\<lparr>JSONRPC := ''2.0'',
                    ID := Some \<lparr>Value = Some (IntValue (nextID c + 1))\<rparr>,
                    Method := method, Params := raw\<rparr>))) = None
    \<longrightarrow> (\<exists>c'. Call_send L c method params
               = Waiting (idString L \<lparr>Value = Some (IntValue (nextID c + 1))\<rparr>) (next_chan c) c'
          \<and> handlers c'
              = (handlers c)(idString L \<lparr>Value = Some (IntValue (nextID c + 1))\<rparr> \<mapsto> next_chan c)
          \<and> chans c' (next_chan c) = make_chan))
   \<and> (\<forall>e v c'. Call_send L c method params = Returned e v c'
         \<longrightarrow> (\<exists>t. e = Some (''failed to create request: '' @ t)
                  \<or> e = Some (''failed to send request: '' @ t)))"
proof (intro conjI impI allI)
  assume a: "json_Marshal_any L params = Inr raw
      \<and> fst (snd (WriteMessage L (stdin c)
                 (zero_Message\<lparr>JSONRPC := ''2.0'',
                    ID := Some \<lparr>Value = Some (IntValue (nextID c + 1))\<rparr>,
                    Method := method, Params := raw\<rparr>))) = None"
  then have m: "json_Marshal_any L params = Inr raw" by blast
  from Call_send_cases [OF m, of c "method"] a
  show "\<exists>c'. Call_send L c method params
               = Waiting (idString L \<lparr>Value = Some (IntValue (nextID c + 1))\<rparr>) (next_chan c) c'
          \<and> handlers c'
              = (handlers c)(idString L \<lparr>Value = Some (IntValue (nextID c + 1))\<rparr> \<mapsto> next_chan c)
          \<and> chans c' (next_chan c) = make_chan"
    by auto
next
  fix e v c'
  assume "Call_send L c method params = Returned e v c'"
  then show "\<exists>t. e = Some (''failed to create request: '' @ t)
                  \<or> e = Some (''failed to send request: '' @ t)"
    by (rule Call_send_errors)
qed

lemmas call_eval =
  Call_def Call_send_def Call_select_def NewRequest_def WriteMessage_def Buffer_Write_def
  unregister_def add_log_def example_idString_def format_d_def decimal.simps digit_char_def
  Let_def

theorem Call_registers_over_existing_entry_witness:
  "json_Marshal_any example_lib (Some ''{}'') = Inr ''{}''
   \<and> fst (snd (WriteMessage example_lib (stdin (example_client\<lparr>handlers := [''1'' \<mapsto> 5]\<rparr>))
                 (zero_Message\<lparr>JSONRPC := ''2.0'',
                    ID := Some \<lparr>Value = Some (IntValue (nextID (example_client\<lparr>handlers := [''1'' \<mapsto> 5]\<rparr>) + 1))\<rparr>,
                    Method := ''initialize'', Params := ''{}''\<rparr>))) = None
   \<and> handlers (example_client\<lparr>handlers := [''1'' \<mapsto> 5]\<rparr>) ''1'' = Some 5
   \<and> (\<exists>c'. Call_send example_lib (example_client\<lparr>handlers := [''1'' \<mapsto> 5]\<rparr>)
              ''initialize'' (Some ''{}'')
             = Waiting ''1'' 0 c'
           \<and> handlers c' = [''1'' \<mapsto> 0] \<and> chans c' 0 = make_chan)"
proof -
  let ?c = "example_client\<lparr>handlers := [''1'' \<mapsto> 5]\<rparr>"
  have m: "json_Marshal_any example_lib (Some ''{}'') = Inr ''{}''"
    by (simp add: example_eval)
  have w: "fst (snd (WriteMessage example_lib (stdin ?c)
                 (zero_Message\<lparr>JSONRPC := ''2.0'',
                    ID := Some \<lparr>Value = Some (IntValue (nextID ?c + 1))\<rparr>,
                    Method := ''initialize'', Params := ''{}''\<rparr>))) = None"
    by (simp add: example_eval call_eval)
  have h: "handlers ?c ''1'' = Some 5" by simp
  have k: "idString example_lib \<lparr>Value = Some (IntValue (nextID ?c + 1))\<rparr> = ''1''"
    "next_chan ?c = 0" "(handlers ?c)(''1'' \<mapsto> 0) = [''1'' \<mapsto> 0]"
    by (simp_all add: example_eval call_eval)
  from Call_registers_over_existing_entry [of example_lib "Some ''{}''" "''{}''" ?c "''initialize''"]
    m w
  have "\<exists>c'. Call_send example_lib ?c ''initialize'' (Some ''{}'')
               = Waiting (idString example_lib \<lparr>Value = Some (IntValue (nextID ?c + 1))\<rparr>)
                   (next_chan ?c) c'
          \<and> handlers c'
              = (handlers ?c)(idString example_lib \<lparr>Value = Some (IntValue (nextID ?c + 1))\<rparr>
                   \<mapsto> next_chan ?c)
          \<and> chans c' (next_chan ?c) = make_chan"
    by blast
  then have "\<exists>c'. Call_send example_lib ?c ''initialize'' (Some ''{}'') = Waiting ''1'' 0 c'
           \<and> handlers c' = [''1'' \<mapsto> 0] \<and> chans c' 0 = make_chan"
    unfolding k .
  with m w h show ?thesis by blast
qed

text \<open>
  The table has a pending call under the key \<open>1\<close>, with the channel 5, and the next
  identifier is 1: the call does not fail, it waits, and the table now has its own
  channel 0 under the key.
\<close>

theorem register_existing_counterexample:
  "handlers (example_client\<lparr>handlers := [''1'' \<mapsto> 5]\<rparr>) ''1'' = Some 5
   \<and> (case Call_send example_lib (example_client\<lparr>handlers := [''1'' \<mapsto> 5]\<rparr>)
             ''initialize'' (Some ''{}'') of
         Waiting idStr ch c' \<Rightarrow> idStr = ''1'' \<and> ch = 0 \<and> handlers c' ''1'' = Some 0
       | Returned e v c' \<Rightarrow> False
       | CallPanicked p c' \<Rightarrow> False)"
  by (simp add: example_eval call_eval)

lemma Call_select_unregisters:
  "Call_select L c idStr ch dest sel = Returned e v c' \<Longrightarrow> handlers c' idStr = None"
  "Call_select L c idStr ch dest sel = CallPanicked p c' \<Longrightarrow> handlers c' idStr = None"
  by (auto simp: Call_select_def unregister_def add_log_def Let_def
        split: select_case.splits option.splits prod.splits call_dest.splits sum.splits
          if_splits)

text \<open>
  C9. Once the request has been created, so that \<open>Call\<close> has registered its channel,
  every way out of \<open>Call\<close> leaves the table without an entry under the key of the call:
  the return after a response, with or without an error in it, the return after a failed
  write, the return after the context is done, and a panic, whatever the rest of the
  program has done to the client while \<open>Call\<close> was waiting.
\<close>

theorem Call_removes_pending_entry:
  assumes "json_Marshal_any L params = Inr raw"
  shows "(\<forall>e v c'. Call L c method params dest meanwhile = Returned e v c'
            \<longrightarrow> handlers c' (idString L \<lparr>Value = Some (IntValue (nextID c + 1))\<rparr>) = None)
       \<and> (\<forall>p c'. Call L c method params dest meanwhile = CallPanicked p c'
            \<longrightarrow> handlers c' (idString L \<lparr>Value = Some (IntValue (nextID c + 1))\<rparr>) = None)"
proof -
  let ?key = "idString L \<lparr>Value = Some (IntValue (nextID c + 1))\<rparr>"
  from Call_send_cases [OF assms, of c "method"]
  consider c3 where "Call_send L c method params = Waiting ?key (next_chan c) c3"
    | e c1 where "Call_send L c method params
                    = Returned (Some (''failed to send request: '' @ e)) NoValue c1"
        "handlers c1 ?key = None"
    by blast
  then show ?thesis
  proof cases
    case 1
    obtain sel c4 where mw: "meanwhile c3 = (sel, c4)" by (cases "meanwhile c3") auto
    have "Call L c method params dest meanwhile = Call_select L c4 ?key (next_chan c) dest sel"
      using 1 mw by (simp add: Call_def)
    then show ?thesis using Call_select_unregisters [of L c4 ?key "next_chan c" dest sel] by auto
  next
    case 2
    then show ?thesis by (simp add: Call_def)
  qed
qed

theorem Call_removes_pending_entry_witness:
  "json_Marshal_any example_lib (Some ''{}'') = Inr ''{}''
   \<and> json_Marshal_any (example_lib\<lparr>Write := Closed_Write\<rparr>) (Some ''{}'') = Inr ''{}''
   \<and> (case Call example_lib example_client ''initialize'' (Some ''{}'') RawMessageDest
              (\<lambda>c. (CtxDone ''context deadline exceeded'', c)) of
         Returned e v c' \<Rightarrow>
           e = Some ''request timed out: context deadline exceeded'' \<and> handlers c' ''1'' = None
       | Waiting idStr ch c' \<Rightarrow> False
       | CallPanicked p c' \<Rightarrow> False)
   \<and> (case Call example_lib example_client ''initialize'' (Some ''{}'') RawMessageDest
              (\<lambda>c. (RecvReady,
                     c\<lparr>chans := (chans c)(0 := \<lparr>buf = [initialize_response], closed = True\<rparr>)\<rparr>)) of
         Returned e v c' \<Rightarrow> e = None \<and> v = RawValue ''{}'' \<and> handlers c' ''1'' = None
       | Waiting idStr ch c' \<Rightarrow> False
       | CallPanicked p c' \<Rightarrow> False)
   \<and> (case Call example_lib example_client ''initialize'' (Some ''{}'') RawMessageDest
              (\<lambda>c. (RecvReady,
                     c\<lparr>chans := (chans c)(0 := \<lparr>buf = [initialize_failed], closed = True\<rparr>)\<rparr>)) of
         Returned e v c' \<Rightarrow>
           e = Some ''request failed: invalid request (code: -32600)'' \<and> handlers c' ''1'' = None
       | Waiting idStr ch c' \<Rightarrow> False
       | CallPanicked p c' \<Rightarrow> False)
   \<and> (case Call (example_lib\<lparr>Write := Closed_Write\<rparr>) example_client ''initialize'' (Some ''{}'')
              RawMessageDest (\<lambda>c. (RecvReady, c)) of
         Returned e v c' \<Rightarrow>
           e = Some ''failed to send request: failed to write header: write |1: broken pipe''
           \<and> handlers c' ''1'' = None
       | Waiting idStr ch c' \<Rightarrow> False
       | CallPanicked p c' \<Rightarrow> False)"
proof -
  let ?broken = "example_lib\<lparr>Write := Closed_Write\<rparr>"
  have m: "json_Marshal_any example_lib (Some ''{}'') = Inr ''{}''"
    "json_Marshal_any ?broken (Some ''{}'') = Inr ''{}''"
    by (simp_all add: example_eval)
  have k: "idString example_lib \<lparr>Value = Some (IntValue (nextID example_client + 1))\<rparr> = ''1''"
    "idString ?broken \<lparr>Value = Some (IntValue (nextID example_client + 1))\<rparr> = ''1''"
    by (simp_all add: example_eval call_eval)
  note t = Call_removes_pending_entry [OF m(1), of example_client "''initialize''" RawMessageDest,
      unfolded k]
  note t' = Call_removes_pending_entry [OF m(2), of example_client "''initialize''" RawMessageDest,
      unfolded k]
  let ?timeout = "\<lambda>c :: (bytes, bytes option) Client. (CtxDone ''context deadline exceeded'', c)"
  let ?deliver = "\<lambda>c :: (bytes, bytes option) Client. (RecvReady,
                     c\<lparr>chans := (chans c)(0 := \<lparr>buf = [initialize_response], closed = True\<rparr>)\<rparr>)"
  let ?fail = "\<lambda>c :: (bytes, bytes option) Client. (RecvReady,
                     c\<lparr>chans := (chans c)(0 := \<lparr>buf = [initialize_failed], closed = True\<rparr>)\<rparr>)"
  let ?idle = "\<lambda>c :: (bytes, bytes option) Client. (RecvReady, c)"
  have 1: "\<exists>c'. Call example_lib example_client ''initialize'' (Some ''{}'') RawMessageDest ?timeout
      = Returned (Some ''request timed out: context deadline exceeded'') NoValue c'"
    by (simp add: example_eval call_eval)
  have 2: "\<exists>c'. Call example_lib example_client ''initialize'' (Some ''{}'') RawMessageDest ?deliver
      = Returned None (RawValue ''{}'') c'"
    by (simp add: example_eval call_eval chan_recv_def initialize_response_def)
  have 3: "\<exists>c'. Call example_lib example_client ''initialize'' (Some ''{}'') RawMessageDest ?fail
      = Returned (Some ''request failed: invalid request (code: -32600)'') NoValue c'"
    by (simp add: example_eval call_eval chan_recv_def initialize_failed_def)
  have 4: "\<exists>c'. Call ?broken example_client ''initialize'' (Some ''{}'') RawMessageDest ?idle
      = Returned (Some ''failed to send request: failed to write header: write |1: broken pipe'')
          NoValue c'"
    by (simp add: example_eval call_eval Closed_Write_def)
  from 1 t [of ?timeout] 2 t [of ?deliver] 3 t [of ?fail] 4 t' [of ?idle] m show ?thesis by auto
qed

section \<open>Delivery of a response\<close>

text \<open>
  The loop hands a response to the channel that the table holds under the string form of
  the identifier of the response, and to no other: it appends the message to the buffer
  of that channel and closes it, and every other channel stays as it was.
\<close>

lemma handle_response_delivery:
  assumes "ID msg = Some i" and "handle_response L c msg = Continue c'"
  shows "handlers c (idString L i) \<noteq> Some ch \<Longrightarrow> chans c' ch = chans c ch"
    and "handlers c (idString L i) = Some ch \<Longrightarrow>
           chans c' ch = (chans c ch)\<lparr>buf := buf (chans c ch) @ [msg], closed := True\<rparr>"
  using assms
  by (auto simp: handle_response_def Let_def add_log_def chan_send_def chan_close_def
        split: option.splits chan_op.splits if_splits)

end
